theory Spec2Isabelle
  imports Complex_Main
begin

section \<open>Inspirational Shorts pipeline (AutoTY.py)\<close>

text \<open>
  A shallow embedding of \<^verbatim>\<open>AutoTY.py\<close>. The script is a linear batch job; what it
  computes itself (slicing the quote list, building hashtags, the publishing schedule,
  the thumbnail text position, the handling of upload errors, the cleanup loop) is
  written out below. What third-party libraries decide (the HTTP answer, speech and
  image synthesis, encoding, OAuth, the upload call) is an input of the model: a record
  of outcomes, each of which may be an exception.
\<close>

subsection \<open>Exceptions\<close>

text \<open>
  The exceptions the script can meet. \<open>HTTPError\<close> is the one of \<^verbatim>\<open>requests\<close>
  (\<^verbatim>\<open>raise_for_status\<close>), \<open>HttpError\<close> the one of \<^verbatim>\<open>googleapiclient\<close>, with the
  status of its response. \<open>FileNotFoundError\<close>, \<open>PermissionError\<close> and
  \<open>IsADirectoryError\<close> are subclasses of \<open>OSError\<close>.
\<close>

datatype exn =
    RequestException
  | HTTPError nat
  | JSONDecodeError
  | TypeError
  | AttributeError
  | KeyError string
  | OverflowError
  | OSError
  | FileNotFoundError
  | PermissionError
  | IsADirectoryError
  | HttpError nat
  | OtherError string

fun is_OSError :: "exn \<Rightarrow> bool" where
  "is_OSError OSError = True"
| "is_OSError FileNotFoundError = True"
| "is_OSError PermissionError = True"
| "is_OSError IsADirectoryError = True"
| "is_OSError _ = False"

subsection \<open>JSON values and dictionaries\<close>

text \<open>
  What \<^verbatim>\<open>response.json()\<close> returns. A dictionary is an association list read with
  \<open>map_of\<close>; numbers are kept by their value.
\<close>

datatype json =
    JNull
  | JBool bool
  | JNum rat
  | JStr string
  | JArr "json list"
  | JObj "(string \<times> json) list"

type_synonym dict = "(string \<times> json) list"

text \<open>\<^verbatim>\<open>d.get(k, default)\<close>\<close>

definition dict_get :: "dict \<Rightarrow> string \<Rightarrow> json \<Rightarrow> json" where
  "dict_get d k dflt = (case map_of d k of None \<Rightarrow> dflt | Some v \<Rightarrow> v)"

text \<open>\<^verbatim>\<open>d[k]\<close>, which raises \<open>KeyError\<close> on a missing key.\<close>

definition dict_getitem :: "dict \<Rightarrow> string \<Rightarrow> exn + json" where
  "dict_getitem d k = (case map_of d k of None \<Rightarrow> Inl (KeyError k) | Some v \<Rightarrow> Inr v)"

text \<open>
  \<^verbatim>\<open>xs[:n]\<close>: the first \<open>n\<close> elements, and for a negative \<open>n\<close> all but the last
  \<open>-n\<close>.
\<close>

definition slice_to :: "'a list \<Rightarrow> int \<Rightarrow> 'a list" where
  "slice_to xs n = (if 0 \<le> n then take (nat n) xs else take (length xs - nat (- n)) xs)"

text \<open>
  A list comprehension whose element expression may raise: the elements are evaluated
  in order and the first exception ends the comprehension.
\<close>

fun comprehension :: "('a \<Rightarrow> exn + 'b) \<Rightarrow> 'a list \<Rightarrow> exn + 'b list" where
  "comprehension f [] = Inr []"
| "comprehension f (x # xs) =
     (case f x of
        Inl e \<Rightarrow> Inl e
      | Inr y \<Rightarrow> (case comprehension f xs of Inl e \<Rightarrow> Inl e | Inr ys \<Rightarrow> Inr (y # ys)))"

subsection \<open>1. Fetching the quotes\<close>

text \<open>
  The answer of \<^verbatim>\<open>requests.get\<close>: its status code and its body as JSON, \<open>None\<close> when
  the body is not JSON (then \<^verbatim>\<open>response.json()\<close> raises).
\<close>

record response =
  status_code :: nat
  body_json :: "json option"

text \<open>\<^verbatim>\<open>response.raise_for_status()\<close> raises for the statuses 400 to 599.\<close>

definition raise_for_status :: "response \<Rightarrow> exn + unit" where
  "raise_for_status r =
     (if 400 \<le> status_code r \<and> status_code r < 600 then Inl (HTTPError (status_code r))
      else Inr ())"

text \<open>
  \<^verbatim>\<open>data[:max_entries]\<close> for any JSON value \<open>data\<close>, as the list of items the
  comprehension then walks: a list is sliced, a string is sliced into its characters,
  a dictionary and the scalars cannot be sliced.
\<close>

fun data_slice :: "json \<Rightarrow> int \<Rightarrow> exn + json list" where
  "data_slice (JArr xs) n = Inr (slice_to xs n)"
| "data_slice (JStr s) n = Inr (map (\<lambda>c. JStr [c]) (slice_to s n))"
| "data_slice _ n = Inl TypeError"

text \<open>
  \<^verbatim>\<open>{"quote": item.get("q", ""), "author": item.get("a", "")}\<close>: only a dictionary has
  \<^verbatim>\<open>get\<close>.
\<close>

fun quote_entry :: "json \<Rightarrow> exn + dict" where
  "quote_entry (JObj d) =
     Inr [(''quote'', dict_get d ''q'' (JStr '''')), (''author'', dict_get d ''a'' (JStr ''''))]"
| "quote_entry _ = Inl AttributeError"

definition fetch_quotes :: "exn + response \<Rightarrow> int \<Rightarrow> exn + dict list" where
  "fetch_quotes got max_entries =
     (case got of
        Inl e \<Rightarrow> Inl e
      | Inr r \<Rightarrow>
          (case raise_for_status r of
             Inl e \<Rightarrow> Inl e
           | Inr _ \<Rightarrow>
               (case body_json r of
                  None \<Rightarrow> Inl JSONDecodeError
                | Some data \<Rightarrow>
                    (case data_slice data max_entries of
                       Inl e \<Rightarrow> Inl e
                     | Inr items \<Rightarrow> comprehension quote_entry items))))"

subsection \<open>5. Hashtags\<close>

text \<open>\<^verbatim>\<open>s.replace(" ", "")\<close> removes every space character.\<close>

definition remove_spaces :: "string \<Rightarrow> string" where
  "remove_spaces s = filter (\<lambda>c. c \<noteq> CHR '' '') s"

text \<open>
  \<^verbatim>\<open>entry["author"]\<close> raises \<open>KeyError\<close> when the key is missing, and only a string
  has \<^verbatim>\<open>replace\<close>.
\<close>

definition generate_hashtags :: "dict \<Rightarrow> exn + string list" where
  "generate_hashtags entry =
     (let base = [''Inspiration'', ''Motivation'', ''DailyQuote'', ''Viral'', ''Shorts''] in
      case dict_getitem entry ''author'' of
        Inl e \<Rightarrow> Inl e
      | Inr (JStr a) \<Rightarrow>
          (let author_tag = remove_spaces a in
           Inr (map (\<lambda>t. ''#'' @ t) (base @ [author_tag])))
      | Inr _ \<Rightarrow> Inl AttributeError)"

subsection \<open>Dates and times\<close>

text \<open>
  A \<^verbatim>\<open>datetime\<close> is kept as the proleptic Gregorian ordinal of its date (what
  \<^verbatim>\<open>toordinal()\<close> gives; day 1 is 0001-01-01, the last day 3652059 is 9999-12-31) and
  its time of day. A \<^verbatim>\<open>timedelta\<close> is normalised to days, seconds below 86400 and
  microseconds below 1000000.
\<close>

record datetime =
  ordinal :: int
  hour :: int
  minute :: int
  second :: int
  microsecond :: int

record timedelta =
  days :: int
  seconds :: int
  microseconds :: int

definition MAXORDINAL :: int where
  "MAXORDINAL = 3652059"

text \<open>\<^verbatim>\<open>datetime.timedelta(days=d, hours=h)\<close> on integers.\<close>

definition timedelta_days_hours :: "int \<Rightarrow> int \<Rightarrow> exn + timedelta" where
  "timedelta_days_hours d h =
     (let s = h * 3600;
          d' = d + s div 86400
      in if \<bar>d'\<bar> > 999999999 then Inl OverflowError
         else Inr \<lparr>days = d', seconds = s mod 86400, microseconds = 0\<rparr>)"

text \<open>
  \<^verbatim>\<open>dt + td\<close>: the fields are summed, carried from microseconds to seconds to days,
  and a date outside years 1 to 9999 raises \<open>OverflowError\<close>.
\<close>

definition datetime_add :: "datetime \<Rightarrow> timedelta \<Rightarrow> exn + datetime" where
  "datetime_add dt td =
     (let us = microsecond dt + microseconds td;
          s = hour dt * 3600 + minute dt * 60 + second dt + seconds td + us div 1000000;
          d = ordinal dt + days td + s div 86400;
          r = s mod 86400
      in if 0 < d \<and> d \<le> MAXORDINAL
         then Inr \<lparr>ordinal = d, hour = r div 3600, minute = (r mod 3600) div 60,
                   second = r mod 60, microsecond = us mod 1000000\<rparr>
         else Inl OverflowError)"

text \<open>
  \<^verbatim>\<open>start = datetime.datetime.utcnow().replace(hour=9, minute=0, second=0, microsecond=0)\<close>
\<close>

definition start_of :: "datetime \<Rightarrow> datetime" where
  "start_of now = now\<lparr>hour := 9, minute := 0, second := 0, microsecond := 0\<rparr>"

text \<open>
  The schedule of \<^verbatim>\<open>main\<close>:
  \<^verbatim>\<open>day_offset = idx // 5; slot = idx % 5;
  start + datetime.timedelta(days=day_offset, hours=slot*2)\<close>
\<close>

definition publish_time :: "datetime \<Rightarrow> nat \<Rightarrow> exn + datetime" where
  "publish_time start idx =
     (let day_offset = idx div 5;
          slot = idx mod 5
      in case timedelta_days_hours (int day_offset) (int (slot * 2)) of
           Inl e \<Rightarrow> Inl e
         | Inr td \<Rightarrow> datetime_add start td)"

subsection \<open>The state of a run\<close>

text \<open>
  The file system as far as \<^verbatim>\<open>os.remove\<close> sees it: the paths that exist, and among
  them those that cannot be removed (a directory, a file in a read-only directory).
\<close>

record filesys =
  files :: "string set"
  locked :: "string set"

text \<open>
  An OAuth credential, with the attributes \<^verbatim>\<open>get_authenticated_service\<close> reads, as
  they stand when they are read (the clock that expires a token is not part of the
  model).
\<close>

record creds =
  valid :: bool
  expired :: bool
  refresh_token :: "string option"

datatype client = Client creds

record upload_body =
  snippet_channelId :: string
  snippet_title :: string
  snippet_description :: string
  snippet_tags :: "string list"
  status_privacyStatus :: string
  status_publishAt :: string
  status_selfDeclaredMadeForKids :: bool

text \<open>
  What a run does, in order: the calls of the stages with their arguments, the text
  drawn on the thumbnail, the steps of the authentication, the upload request, what is
  printed and every call of \<^verbatim>\<open>os.remove\<close>.
\<close>

datatype event =
    Synthesize string string
  | Slide dict string
  | Assemble string string string
  | Thumbnail string string string
  | DrawText int int string
  | Upload string string string "string list" string
  | Authenticate
  | Refresh creds
  | RunFlow
  | Build creds
  | Insert upload_body string
  | Print string
  | Remove string

text \<open>
  \<open>token_pickle\<close> is the file \<^verbatim>\<open>token.pickle\<close>: absent, or what unpickling it gives.
\<close>

record state =
  fs :: filesys
  token_pickle :: "(exn + creds) option"
  trace :: "event list"

text \<open>
  A statement of the script takes the state and returns the state it leaves, with a
  value or the exception it raised.
\<close>

type_synonym 'a io = "state \<Rightarrow> (exn + 'a) \<times> state"

definition io_return :: "'a \<Rightarrow> 'a io" where
  "io_return x s = (Inr x, s)"

definition io_raise :: "exn \<Rightarrow> 'a io" where
  "io_raise e s = (Inl e, s)"

definition io_bind :: "'a io \<Rightarrow> ('a \<Rightarrow> 'b io) \<Rightarrow> 'b io" where
  "io_bind m f s = (case m s of (Inl e, s') \<Rightarrow> (Inl e, s') | (Inr x, s') \<Rightarrow> f x s')"

definition io_lift :: "exn + 'a \<Rightarrow> 'a io" where
  "io_lift r s = (r, s)"

definition io_log :: "event \<Rightarrow> unit io" where
  "io_log ev s = (Inr (), s\<lparr>trace := trace s @ [ev]\<rparr>)"

text \<open>A library call that writes files and may raise.\<close>

definition io_fs :: "(filesys \<Rightarrow> exn option \<times> filesys) \<Rightarrow> unit io" where
  "io_fs f s =
     (case f (fs s) of
        (None, fs') \<Rightarrow> (Inr (), s\<lparr>fs := fs'\<rparr>)
      | (Some e, fs') \<Rightarrow> (Inl e, s\<lparr>fs := fs'\<rparr>))"

subsection \<open>What the libraries decide\<close>

text \<open>
  The outcomes of the calls into third-party code, given to the model as a record:
  the answer of the quote endpoint, the clock, the rendering of a \<^verbatim>\<open>datetime\<close>
  (\<^verbatim>\<open>isoformat\<close>) and of a JSON value that is not a string (\<^verbatim>\<open>str\<close>), speech,
  slide and video generation (\<^verbatim>\<open>gTTS\<close>, Stable Diffusion, \<^verbatim>\<open>moviepy\<close>), the
  image library (opening the template gives its size, \<^verbatim>\<open>textbbox\<close> measures the
  title), the OAuth flow and the upload call.
\<close>

record world =
  ext_get :: "exn + response"
  ext_utcnow :: datetime
  ext_isoformat :: "datetime \<Rightarrow> string"
  ext_str :: "json \<Rightarrow> string"
  ext_synthesize_voice :: "string \<Rightarrow> string \<Rightarrow> filesys \<Rightarrow> exn option \<times> filesys"
  ext_generate_broll_slide :: "dict \<Rightarrow> string \<Rightarrow> filesys \<Rightarrow> exn option \<times> filesys"
  ext_assemble_video :: "string \<Rightarrow> string \<Rightarrow> string \<Rightarrow> filesys \<Rightarrow> exn option \<times> filesys"
  ext_image_open :: "string \<Rightarrow> filesys \<Rightarrow> exn + int \<times> int"
  ext_textbbox :: "string \<Rightarrow> exn + int \<times> int \<times> int \<times> int"
  ext_image_save :: "string \<Rightarrow> filesys \<Rightarrow> exn option \<times> filesys"
  ext_refresh :: "creds \<Rightarrow> exn + creds"
  ext_run_local_server :: "exn + creds"
  ext_build :: "creds \<Rightarrow> exn option"
  ext_media_file_upload :: "string \<Rightarrow> filesys \<Rightarrow> exn option"
  ext_execute :: "client \<Rightarrow> upload_body \<Rightarrow> string \<Rightarrow> exn + dict"

text \<open>\<^verbatim>\<open>str(v)\<close>, as an f-string and \<^verbatim>\<open>print\<close> apply it: a string is itself.\<close>

definition py_str :: "world \<Rightarrow> json \<Rightarrow> string" where
  "py_str w v = (case v of JStr s \<Rightarrow> s | _ \<Rightarrow> ext_str w v)"

subsection \<open>2 to 4. The media stages\<close>

text \<open>
  \<^verbatim>\<open>synthesize_voice\<close>, \<^verbatim>\<open>generate_broll_slide\<close> and \<^verbatim>\<open>assemble_video\<close> are
  calls into the speech, image and video libraries: each is recorded and its outcome
  taken from the world.
\<close>

definition synthesize_voice :: "world \<Rightarrow> string \<Rightarrow> string \<Rightarrow> unit io" where
  "synthesize_voice w text out_path =
     io_bind (io_log (Synthesize text out_path)) (\<lambda>_.
     io_fs (ext_synthesize_voice w text out_path))"

definition generate_broll_slide :: "world \<Rightarrow> dict \<Rightarrow> string \<Rightarrow> unit io" where
  "generate_broll_slide w entry out_path =
     io_bind (io_log (Slide entry out_path)) (\<lambda>_.
     io_fs (ext_generate_broll_slide w entry out_path))"

definition assemble_video :: "world \<Rightarrow> string \<Rightarrow> string \<Rightarrow> string \<Rightarrow> unit io" where
  "assemble_video w voice_fp slide_fp out_fp =
     io_bind (io_log (Assemble voice_fp slide_fp out_fp)) (\<lambda>_.
     io_fs (ext_assemble_video w voice_fp slide_fp out_fp))"

subsection \<open>6. The thumbnail\<close>

text \<open>
  \<^verbatim>\<open>iw, ih = img.size
  bbox = draw.textbbox((0,0), title, font=font, stroke_width=2)
  tw, th = bbox[2]-bbox[0], bbox[3]-bbox[1]
  x, y = (iw - tw)//2, ih - th - 50
  draw.text((x, y), title, ...)\<close>
  Python's \<^verbatim>\<open>//\<close> on integers rounds down, as \<open>div\<close> on \<open>int\<close> does.
\<close>

definition create_thumbnail :: "world \<Rightarrow> string \<Rightarrow> string \<Rightarrow> string \<Rightarrow> unit io" where
  "create_thumbnail w title template out_path =
     io_bind (io_log (Thumbnail title template out_path)) (\<lambda>_.
     io_bind (\<lambda>s. io_lift (ext_image_open w template (fs s)) s) (\<lambda>(iw, ih).
     io_bind (io_lift (ext_textbbox w title)) (\<lambda>(b0, b1, b2, b3).
     let tw = b2 - b0;
         th = b3 - b1;
         x = (iw - tw) div 2;
         y = ih - th - 50
     in io_bind (io_log (DrawText x y title)) (\<lambda>_.
        io_fs (ext_image_save w out_path)))))"

subsection \<open>7. Authentication\<close>

text \<open>The truth value of \<^verbatim>\<open>creds.refresh_token\<close>: \<^verbatim>\<open>None\<close> and the empty string are false.\<close>

definition truthy :: "string option \<Rightarrow> bool" where
  "truthy t = (case t of None \<Rightarrow> False | Some s \<Rightarrow> s \<noteq> [])"

text \<open>
  \<^verbatim>\<open>get_authenticated_service\<close>: the cached credential is loaded when the token file
  exists; a missing or invalid credential is refreshed (when expired, with a refresh
  token) or obtained from the interactive flow, and written back; then the client is
  built. Writing the token file is taken to succeed.
\<close>

definition load_token :: "(creds option) io" where
  "load_token s =
     (case token_pickle s of
        None \<Rightarrow> (Inr None, s)
      | Some (Inl e) \<Rightarrow> (Inl e, s)
      | Some (Inr c) \<Rightarrow> (Inr (Some c), s))"

definition dump_token :: "creds \<Rightarrow> unit io" where
  "dump_token c s = (Inr (), s\<lparr>token_pickle := Some (Inr c)\<rparr>)"

definition needs_login :: "creds option \<Rightarrow> bool" where
  "needs_login c = (case c of None \<Rightarrow> True | Some c' \<Rightarrow> \<not> valid c')"

definition can_refresh :: "creds option \<Rightarrow> bool" where
  "can_refresh c = (case c of None \<Rightarrow> False | Some c' \<Rightarrow> expired c' \<and> truthy (refresh_token c'))"

definition get_authenticated_service :: "world \<Rightarrow> client io" where
  "get_authenticated_service w =
     io_bind (io_log Authenticate) (\<lambda>_.
     io_bind load_token (\<lambda>loaded.
     io_bind
       (if needs_login loaded then
          io_bind
            (if can_refresh loaded then
               io_bind (io_log (Refresh (the loaded))) (\<lambda>_. io_lift (ext_refresh w (the loaded)))
             else
               io_bind (io_log RunFlow) (\<lambda>_. io_lift (ext_run_local_server w)))
            (\<lambda>c. io_bind (dump_token c) (\<lambda>_. io_return c))
        else io_return (the loaded))
       (\<lambda>c.
     io_bind (io_log (Build c)) (\<lambda>_.
     case ext_build w c of
       Some e \<Rightarrow> io_raise e
     | None \<Rightarrow> io_return (Client c)))))"

subsection \<open>8. Upload\<close>

definition CHANNEL_ID :: string where
  "CHANNEL_ID = ''#################''"

text \<open>The text printed on status 403 (the arrow is U+2192, three bytes in UTF-8).\<close>

definition api_not_enabled_message :: string where
  "api_not_enabled_message =
     [CHR 0x0A] @ ''ERROR: YouTube Data API not enabled.'' @ [CHR 0x0A] @
     [CHR 0xE2, CHR 0x86, CHR 0x92] @
     '' Enable at: https://console.developers.google.com/apis/api/youtube.googleapis.com/overview?project=YOUR_PROJECT_ID'' @
     [CHR 0x0A]"

text \<open>The request body of the upload.\<close>

definition make_body :: "string \<Rightarrow> string \<Rightarrow> string list \<Rightarrow> string \<Rightarrow> upload_body" where
  "make_body title desc tags publish_at =
     \<lparr>snippet_channelId = CHANNEL_ID, snippet_title = title,
      snippet_description = desc, snippet_tags = tags,
      status_privacyStatus = ''private'', status_publishAt = publish_at,
      status_selfDeclaredMadeForKids = False\<rparr>"

text \<open>
  \<^verbatim>\<open>upload_video\<close>: the client and the media object are made outside the
  \<^verbatim>\<open>try\<close>; inside it, an \<open>HttpError\<close> of status 403 is answered by the message and a
  plain \<^verbatim>\<open>return\<close>, and everything else is raised again. \<^verbatim>\<open>res["id"]\<close> is read inside
  the \<^verbatim>\<open>try\<close> too, and its \<open>KeyError\<close> is not an \<open>HttpError\<close>.
\<close>

definition upload_video ::
  "world \<Rightarrow> string \<Rightarrow> string \<Rightarrow> string \<Rightarrow> string list \<Rightarrow> string \<Rightarrow> unit io" where
  "upload_video w video_fp title desc tags publish_at =
     io_bind (io_log (Upload video_fp title desc tags publish_at)) (\<lambda>_.
     io_bind (get_authenticated_service w) (\<lambda>yt.
     let body = make_body title desc tags publish_at
     in io_bind (\<lambda>s. (case ext_media_file_upload w video_fp (fs s) of
                         Some e \<Rightarrow> io_raise e s
                       | None \<Rightarrow> io_return () s)) (\<lambda>_.
        io_bind (io_log (Insert body video_fp)) (\<lambda>_.
        case ext_execute w yt body video_fp of
          Inr res \<Rightarrow>
            (case dict_getitem res ''id'' of
               Inl e \<Rightarrow> io_raise e
             | Inr v \<Rightarrow> io_log (Print (''Uploaded video ID: '' @ py_str w v)))
        | Inl (HttpError st) \<Rightarrow>
            if st = 403 then io_log (Print api_not_enabled_message)
            else io_raise (HttpError st)
        | Inl e \<Rightarrow> io_raise e))))"

subsection \<open>Cleanup\<close>

text \<open>
  \<^verbatim>\<open>os.remove(path)\<close>: a path that does not exist raises \<open>FileNotFoundError\<close>, one
  that cannot be removed \<open>PermissionError\<close>.
\<close>

definition os_remove :: "string \<Rightarrow> unit io" where
  "os_remove path s =
     (let s' = s\<lparr>trace := trace s @ [Remove path]\<rparr> in
      if path \<notin> files (fs s) then (Inl FileNotFoundError, s')
      else if path \<in> locked (fs s) then (Inl PermissionError, s')
      else (Inr (), s'\<lparr>fs := (fs s)\<lparr>files := files (fs s) - {path}\<rparr>\<rparr>))"

text \<open>
  \<^verbatim>\<open>for path in [...]:
      try: os.remove(path)
      except OSError: pass\<close>
\<close>

fun cleanup :: "string list \<Rightarrow> unit io" where
  "cleanup [] s = (Inr (), s)"
| "cleanup (path # paths) s =
     (case os_remove path s of
        (Inr _, s') \<Rightarrow> cleanup paths s'
      | (Inl e, s') \<Rightarrow> if is_OSError e then cleanup paths s' else (Inl e, s'))"

subsection \<open>The main pipeline\<close>

definition OUTPUT_DIR :: string where
  "OUTPUT_DIR = ''temp''"

definition TEMPLATE_THUMB :: string where
  "TEMPLATE_THUMB = ''resources/templates/thumbnail.png''"

text \<open>\<^verbatim>\<open>os.path.join(a, b)\<close> for a relative \<open>b\<close> and a non-empty \<open>a\<close> without a final slash.\<close>

definition path_join :: "string \<Rightarrow> string \<Rightarrow> string" where
  "path_join a b = a @ ''/'' @ b"

text \<open>The decimal digits of an index, as an f-string writes it.\<close>

function str_nat :: "nat \<Rightarrow> string" where
  "str_nat n = (if n < 10 then [''0123456789'' ! n] else str_nat (n div 10) @ [''0123456789'' ! (n mod 10)])"
  by pat_completeness auto
termination
  by (relation "measure id") auto

definition voice_path :: "nat \<Rightarrow> string" where
  "voice_path idx = path_join OUTPUT_DIR (''voice_'' @ str_nat idx @ ''.mp3'')"

definition slide_path :: "nat \<Rightarrow> string" where
  "slide_path idx = path_join OUTPUT_DIR (''slide_'' @ str_nat idx @ ''.mp4'')"

definition video_path :: "nat \<Rightarrow> string" where
  "video_path idx = path_join OUTPUT_DIR (''video_'' @ str_nat idx @ ''.mp4'')"

definition thumb_path :: "nat \<Rightarrow> string" where
  "thumb_path idx = path_join OUTPUT_DIR (''thumb_'' @ str_nat idx @ ''.png'')"

text \<open>\<^verbatim>\<open>sep.join(xs)\<close>\<close>

fun join :: "string \<Rightarrow> string list \<Rightarrow> string" where
  "join sep [] = []"
| "join sep [x] = x"
| "join sep (x # y # ys) = x @ sep @ join sep (y # ys)"

text \<open>\<^verbatim>\<open>h.strip("#")\<close> removes the character at both ends, as often as it stands there.\<close>

definition strip_char :: "char \<Rightarrow> string \<Rightarrow> string" where
  "strip_char c s = rev (dropWhile (\<lambda>x. x = c) (rev (dropWhile (\<lambda>x. x = c) s)))"

text \<open>
  The text that is spoken and shown: the quote between double quotes, a space, an em
  dash (U+2014, three bytes in UTF-8), a space and the author, each rendered by
  \<^verbatim>\<open>str\<close>.
\<close>

definition quote_text_of :: "world \<Rightarrow> json \<Rightarrow> json \<Rightarrow> string" where
  "quote_text_of w q a =
     [CHR 0x22] @ py_str w q @ [CHR 0x22] @ '' '' @ [CHR 0xE2, CHR 0x80, CHR 0x94] @ '' '' @ py_str w a"

text \<open>
  The body of the loop up to the call of \<^verbatim>\<open>upload_video\<close>: the title and the text, the
  four media stages, the schedule and the metadata. It gives the arguments of the
  upload.
\<close>

definition item_media ::
  "world \<Rightarrow> datetime \<Rightarrow> nat \<Rightarrow> dict \<Rightarrow> (string \<times> string \<times> string \<times> string list \<times> string) io" where
  "item_media w start idx entry =
     io_bind (io_lift (dict_getitem entry ''author'')) (\<lambda>a.
     let title = ''Inspiration: '' @ py_str w a in
     io_bind (io_lift (dict_getitem entry ''quote'')) (\<lambda>q.
     io_bind (io_lift (dict_getitem entry ''author'')) (\<lambda>a'.
     let quote_text = quote_text_of w q a';
         voice_fp = voice_path idx;
         slide_fp = slide_path idx;
         video_fp = video_path idx;
         thumb_fp = thumb_path idx
     in
     io_bind (synthesize_voice w quote_text voice_fp) (\<lambda>_.
     io_bind (generate_broll_slide w entry slide_fp) (\<lambda>_.
     io_bind (assemble_video w voice_fp slide_fp video_fp) (\<lambda>_.
     io_bind (create_thumbnail w title TEMPLATE_THUMB thumb_fp) (\<lambda>_.
     io_bind (io_lift (publish_time start idx)) (\<lambda>t.
     let publish_at = ext_isoformat w t @ ''Z'' in
     io_bind (io_lift (generate_hashtags entry)) (\<lambda>hashtags.
     let desc = quote_text @ [CHR 0x0A, CHR 0x0A] @ join '' '' hashtags;
         tags = map (strip_char CHR ''#'') hashtags
     in io_return (video_fp, title, desc, tags, publish_at))))))))))"

text \<open>One turn of the loop: the media, the upload, then the cleanup of the four files.\<close>

definition main_item :: "world \<Rightarrow> datetime \<Rightarrow> nat \<Rightarrow> dict \<Rightarrow> unit io" where
  "main_item w start idx entry =
     io_bind (item_media w start idx entry) (\<lambda>(video_fp, title, desc, tags, publish_at).
     io_bind (upload_video w video_fp title desc tags publish_at) (\<lambda>_.
     cleanup [voice_path idx, slide_path idx, video_path idx, thumb_path idx]))"

text \<open>\<^verbatim>\<open>for idx, entry in enumerate(quotes)\<close>: an exception ends the loop.\<close>

fun main_loop :: "world \<Rightarrow> datetime \<Rightarrow> (nat \<times> dict) list \<Rightarrow> unit io" where
  "main_loop w start [] s = (Inr (), s)"
| "main_loop w start ((idx, entry) # rest) s =
     (case main_item w start idx entry s of
        (Inl e, s') \<Rightarrow> (Inl e, s')
      | (Inr _, s') \<Rightarrow> main_loop w start rest s')"

definition main :: "world \<Rightarrow> unit io" where
  "main w =
     io_bind (io_lift (fetch_quotes (ext_get w) 10)) (\<lambda>quotes.
     let start = start_of (ext_utcnow w) in
     main_loop w start (enumerate 0 quotes))"

subsection \<open>Reading a trace\<close>

fun is_Upload :: "event \<Rightarrow> bool" where
  "is_Upload (Upload _ _ _ _ _) = True"
| "is_Upload _ = False"

fun is_Build :: "event \<Rightarrow> bool" where
  "is_Build (Build _) = True"
| "is_Build _ = False"

text \<open>The events after the first occurrence of \<open>ev\<close>.\<close>

definition after :: "event \<Rightarrow> event list \<Rightarrow> event list" where
  "after ev evs = tl (dropWhile (\<lambda>x. x \<noteq> ev) evs)"

subsection \<open>An example run\<close>

text \<open>
  Two quotes, fetched on 2024-05-01 (ordinal 739007) at 14:30:05. Every library call
  succeeds and writes its output file. There is no token file, so the first
  authentication runs the interactive flow. The answer to an upload depends on the
  video: with \<open>first_forbidden\<close> the first video is answered by status 403 and the
  second is accepted.
\<close>

definition demo_quotes :: json where
  "demo_quotes = JArr [JObj [(''q'', JStr ''Be''), (''a'', JStr ''A B'')],
                       JObj [(''q'', JStr ''Do''), (''a'', JStr ''C'')]]"

definition demo_entry0 :: dict where
  "demo_entry0 = [(''quote'', JStr ''Be''), (''author'', JStr ''A B'')]"

definition demo_entry1 :: dict where
  "demo_entry1 = [(''quote'', JStr ''Do''), (''author'', JStr ''C'')]"

definition demo_now :: datetime where
  "demo_now = \<lparr>ordinal = 739007, hour = 14, minute = 30, second = 5, microsecond = 77\<rparr>"

definition demo_start :: datetime where
  "demo_start = \<lparr>ordinal = 739007, hour = 9, minute = 0, second = 0, microsecond = 0\<rparr>"

definition demo_isoformat :: "datetime \<Rightarrow> string" where
  "demo_isoformat d =
     (if d = demo_start then ''2024-05-01T09:00:00''
      else if d = demo_start\<lparr>hour := 11\<rparr> then ''2024-05-01T11:00:00''
      else [])"

definition demo_creds :: creds where
  "demo_creds = \<lparr>valid = True, expired = False, refresh_token = Some ''r''\<rparr>"

definition touch :: "string \<Rightarrow> filesys \<Rightarrow> exn option \<times> filesys" where
  "touch p f = (None, f\<lparr>files := insert p (files f)\<rparr>)"

definition demo_world :: "(string \<Rightarrow> exn + dict) \<Rightarrow> world" where
  "demo_world answer =
     \<lparr>ext_get = Inr \<lparr>status_code = 200, body_json = Some demo_quotes\<rparr>,
      ext_utcnow = demo_now,
      ext_isoformat = demo_isoformat,
      ext_str = (\<lambda>v. ''None''),
      ext_synthesize_voice = (\<lambda>t p. touch p),
      ext_generate_broll_slide = (\<lambda>e p. touch p),
      ext_assemble_video = (\<lambda>v sl p. touch p),
      ext_image_open = (\<lambda>p f. Inr (1280, 720)),
      ext_textbbox = (\<lambda>t. Inr (0, 0, 501, 60)),
      ext_image_save = touch,
      ext_refresh = (\<lambda>c. Inr (c\<lparr>valid := True, expired := False\<rparr>)),
      ext_run_local_server = Inr demo_creds,
      ext_build = (\<lambda>c. None),
      ext_media_file_upload = (\<lambda>p f. None),
      ext_execute = (\<lambda>yt b p. answer p)\<rparr>"

definition first_forbidden :: "string \<Rightarrow> exn + dict" where
  "first_forbidden p =
     (if p = ''temp/video_0.mp4'' then Inl (HttpError 403) else Inr [(''id'', JStr ''abc'')])"

definition demo_state :: state where
  "demo_state = \<lparr>fs = \<lparr>files = {}, locked = {}\<rparr>, token_pickle = None, trace = []\<rparr>"

text \<open>The text, the description and the tags of the two items.\<close>

definition demo_text0 :: string where
  "demo_text0 = [CHR 0x22] @ ''Be'' @ [CHR 0x22] @ '' '' @ [CHR 0xE2, CHR 0x80, CHR 0x94] @ '' A B''"

definition demo_text1 :: string where
  "demo_text1 = [CHR 0x22] @ ''Do'' @ [CHR 0x22] @ '' '' @ [CHR 0xE2, CHR 0x80, CHR 0x94] @ '' C''"

definition demo_desc0 :: string where
  "demo_desc0 = demo_text0 @ [CHR 0x0A, CHR 0x0A] @
     ''#Inspiration #Motivation #DailyQuote #Viral #Shorts #AB''"

definition demo_desc1 :: string where
  "demo_desc1 = demo_text1 @ [CHR 0x0A, CHR 0x0A] @
     ''#Inspiration #Motivation #DailyQuote #Viral #Shorts #C''"

definition demo_tags0 :: "string list" where
  "demo_tags0 = [''Inspiration'', ''Motivation'', ''DailyQuote'', ''Viral'', ''Shorts'', ''AB'']"

definition demo_tags1 :: "string list" where
  "demo_tags1 = [''Inspiration'', ''Motivation'', ''DailyQuote'', ''Viral'', ''Shorts'', ''C'']"

text \<open>
  The states of the run under \<open>first_forbidden\<close>: after the media of the first item,
  after its authentication, after the whole item, and after the second item.
\<close>

definition demo_media0 :: state where
  "demo_media0 =
     \<lparr>fs = \<lparr>files = {''temp/voice_0.mp3'', ''temp/slide_0.mp4'', ''temp/video_0.mp4'',
                      ''temp/thumb_0.png''}, locked = {}\<rparr>,
      token_pickle = None,
      trace = [Synthesize demo_text0 ''temp/voice_0.mp3'',
               Slide demo_entry0 ''temp/slide_0.mp4'',
               Assemble ''temp/voice_0.mp3'' ''temp/slide_0.mp4'' ''temp/video_0.mp4'',
               Thumbnail ''Inspiration: A B'' TEMPLATE_THUMB ''temp/thumb_0.png'',
               DrawText 389 610 ''Inspiration: A B'']\<rparr>"

definition demo_auth0 :: state where
  "demo_auth0 =
     demo_media0\<lparr>token_pickle := Some (Inr demo_creds),
                 trace := trace demo_media0 @
                   [Upload ''temp/video_0.mp4'' ''Inspiration: A B'' demo_desc0 demo_tags0
                      ''2024-05-01T09:00:00Z'',
                    Authenticate, RunFlow, Build demo_creds]\<rparr>"

definition demo_after0 :: state where
  "demo_after0 =
     \<lparr>fs = \<lparr>files = {}, locked = {}\<rparr>,
      token_pickle = Some (Inr demo_creds),
      trace = trace demo_auth0 @
        [Insert (make_body ''Inspiration: A B'' demo_desc0 demo_tags0 ''2024-05-01T09:00:00Z'')
           ''temp/video_0.mp4'',
         Print api_not_enabled_message,
         Remove ''temp/voice_0.mp3'', Remove ''temp/slide_0.mp4'', Remove ''temp/video_0.mp4'',
         Remove ''temp/thumb_0.png'']\<rparr>"

definition demo_after1 :: state where
  "demo_after1 =
     demo_after0\<lparr>trace := trace demo_after0 @
       [Synthesize demo_text1 ''temp/voice_1.mp3'',
        Slide demo_entry1 ''temp/slide_1.mp4'',
        Assemble ''temp/voice_1.mp3'' ''temp/slide_1.mp4'' ''temp/video_1.mp4'',
        Thumbnail ''Inspiration: C'' TEMPLATE_THUMB ''temp/thumb_1.png'',
        DrawText 389 610 ''Inspiration: C'',
        Upload ''temp/video_1.mp4'' ''Inspiration: C'' demo_desc1 demo_tags1 ''2024-05-01T11:00:00Z'',
        Authenticate, Build demo_creds,
        Insert (make_body ''Inspiration: C'' demo_desc1 demo_tags1 ''2024-05-01T11:00:00Z'')
          ''temp/video_1.mp4'',
        Print ''Uploaded video ID: abc'',
        Remove ''temp/voice_1.mp3'', Remove ''temp/slide_1.mp4'', Remove ''temp/video_1.mp4'',
        Remove ''temp/thumb_1.png'']\<rparr>"

section \<open>Properties\<close>

subsection \<open>Hashtags\<close>

text \<open>
  C2. \<^verbatim>\<open>generate_hashtags\<close> is a function of the entry's author string alone: for an
  entry whose author is the string \<open>a\<close> it returns the six tags \<open>#Inspiration\<close>,
  \<open>#Motivation\<close>, \<open>#DailyQuote\<close>, \<open>#Viral\<close>, \<open>#Shorts\<close> and \<open>#\<close> followed by \<open>a\<close>
  with every space character removed, in that order.
\<close>

theorem generate_hashtags_author:
  assumes "map_of entry ''author'' = Some (JStr a)"
  shows "generate_hashtags entry =
           Inr [''#Inspiration'', ''#Motivation'', ''#DailyQuote'', ''#Viral'', ''#Shorts'',
                CHR ''#'' # filter (\<lambda>c. c \<noteq> CHR '' '') a]"
  using assms by (simp add: generate_hashtags_def dict_getitem_def remove_spaces_def)

text \<open>The example of the specification: the author Maya Angelou.\<close>

theorem generate_hashtags_author_witness:
  "map_of [(''quote'', JStr ''Still I rise''), (''author'', JStr ''Maya Angelou'')] ''author''
      = Some (JStr ''Maya Angelou'') \<and>
   generate_hashtags [(''quote'', JStr ''Still I rise''), (''author'', JStr ''Maya Angelou'')] =
     Inr [''#Inspiration'', ''#Motivation'', ''#DailyQuote'', ''#Viral'', ''#Shorts'',
          ''#MayaAngelou'']"
  using generate_hashtags_author
    [of "[(''quote'', JStr ''Still I rise''), (''author'', JStr ''Maya Angelou'')]" "''Maya Angelou''"]
  by simp

subsection \<open>The quote list\<close>

lemma comprehension_quote_entry:
  assumes "\<forall>x \<in> set xs. \<exists>d. x = JObj d"
  shows "\<exists>ys. comprehension quote_entry xs = Inr ys \<and> length ys = length xs \<and>
           (\<forall>i < length xs. \<exists>d. xs ! i = JObj d \<and>
              ys ! i = [(''quote'', dict_get d ''q'' (JStr [])), (''author'', dict_get d ''a'' (JStr []))])"
  using assms
proof (induction xs)
  case Nil
  then show ?case by simp
next
  case (Cons x xs)
  then obtain d where d: "x = JObj d" by auto
  from Cons obtain ys where ys: "comprehension quote_entry xs = Inr ys" "length ys = length xs"
    "\<forall>i < length xs. \<exists>d. xs ! i = JObj d \<and>
        ys ! i = [(''quote'', dict_get d ''q'' (JStr [])), (''author'', dict_get d ''a'' (JStr []))]"
    by auto
  show ?case
    using d ys by (auto simp: nth_Cons split: nat.splits)
qed

lemma fetch_quotes_array:
  assumes "raise_for_status r = Inr ()" and "body_json r = Some (JArr xs)"
  shows "fetch_quotes (Inr r) n = comprehension quote_entry (slice_to xs n)"
  using assms by (simp add: fetch_quotes_def)

text \<open>
  C3. For a successful response whose body is an array of more than 10 elements, the
  first 10 of them objects, \<^verbatim>\<open>fetch_quotes(10)\<close> returns exactly 10 entries: the
  \<open>i\<close>-th is made of the \<open>i\<close>-th element of the array, its \<open>q\<close> under \<open>quote\<close> and its
  \<open>a\<close> under \<open>author\<close> (the empty string for a missing key). The elements after the
  tenth are not looked at.
\<close>

theorem fetch_quotes_truncates:
  assumes "raise_for_status r = Inr ()" and "body_json r = Some (JArr xs)"
      and "10 < length xs"
      and "\<forall>x \<in> set (take 10 xs). \<exists>d. x = JObj d"
  shows "\<exists>ys. fetch_quotes (Inr r) 10 = Inr ys \<and> length ys = 10 \<and>
           (\<forall>i < 10. \<exists>d. xs ! i = JObj d \<and>
              ys ! i = [(''quote'', case map_of d ''q'' of None \<Rightarrow> JStr [] | Some v \<Rightarrow> v),
                        (''author'', case map_of d ''a'' of None \<Rightarrow> JStr [] | Some v \<Rightarrow> v)])"
proof -
  have s: "slice_to xs 10 = take 10 xs" by (simp add: slice_to_def)
  have l: "length (take 10 xs) = 10" using assms(3) by simp
  from comprehension_quote_entry [OF assms(4)] obtain ys where
    ys: "comprehension quote_entry (take 10 xs) = Inr ys" "length ys = length (take 10 xs)"
        "\<forall>i < length (take 10 xs). \<exists>d. take 10 xs ! i = JObj d \<and>
           ys ! i = [(''quote'', dict_get d ''q'' (JStr [])), (''author'', dict_get d ''a'' (JStr []))]"
    by blast
  have "\<forall>i < 10. \<exists>d. xs ! i = JObj d \<and>
           ys ! i = [(''quote'', case map_of d ''q'' of None \<Rightarrow> JStr [] | Some v \<Rightarrow> v),
                     (''author'', case map_of d ''a'' of None \<Rightarrow> JStr [] | Some v \<Rightarrow> v)]"
  proof (intro allI impI)
    fix i :: nat
    assume i: "i < 10"
    have "i < length (take 10 xs)" by (simp only: l i)
    with ys(3) obtain d where "take 10 xs ! i = JObj d"
      "ys ! i = [(''quote'', dict_get d ''q'' (JStr [])), (''author'', dict_get d ''a'' (JStr []))]"
      by blast
    with i show "\<exists>d. xs ! i = JObj d \<and>
           ys ! i = [(''quote'', case map_of d ''q'' of None \<Rightarrow> JStr [] | Some v \<Rightarrow> v),
                     (''author'', case map_of d ''a'' of None \<Rightarrow> JStr [] | Some v \<Rightarrow> v)]"
      by (auto simp: dict_get_def)
  qed
  with ys(1,2) l s fetch_quotes_array [OF assms(1,2), of 10] show ?thesis by auto
qed

text \<open>
  Eleven elements, the last of them not even an object: ten entries come back.
\<close>

theorem fetch_quotes_truncates_witness:
  "raise_for_status \<lparr>status_code = 200, body_json = Some (JArr
       (replicate 10 (JObj [(''q'', JStr ''Be''), (''a'', JStr ''A B'')]) @ [JNull]))\<rparr> = Inr () \<and>
   10 < length (replicate 10 (JObj [(''q'', JStr ''Be''), (''a'', JStr ''A B'')]) @ [JNull]) \<and>
   (\<exists>ys. fetch_quotes (Inr \<lparr>status_code = 200, body_json = Some (JArr
             (replicate 10 (JObj [(''q'', JStr ''Be''), (''a'', JStr ''A B'')]) @ [JNull]))\<rparr>) 10 = Inr ys \<and>
          length ys = 10 \<and> ys ! 9 = [(''quote'', JStr ''Be''), (''author'', JStr ''A B'')])"
proof -
  let ?xs = "replicate 10 (JObj [(''q'', JStr ''Be''), (''a'', JStr ''A B'')]) @ [JNull]"
  let ?r = "\<lparr>status_code = 200, body_json = Some (JArr ?xs)\<rparr>"
  have h1: "raise_for_status ?r = Inr ()" by (simp add: raise_for_status_def)
  have h2: "body_json ?r = Some (JArr ?xs)" by simp
  have h3: "10 < length ?xs" by simp
  have h4: "\<forall>x \<in> set (take 10 ?xs). \<exists>d. x = JObj d" by simp
  from fetch_quotes_truncates [OF h1 h2 h3 h4] obtain ys where
    ys: "fetch_quotes (Inr ?r) 10 = Inr ys" "length ys = 10"
        "\<forall>i < 10. \<exists>d. ?xs ! i = JObj d \<and>
           ys ! i = [(''quote'', case map_of d ''q'' of None \<Rightarrow> JStr [] | Some v \<Rightarrow> v),
                     (''author'', case map_of d ''a'' of None \<Rightarrow> JStr [] | Some v \<Rightarrow> v)]"
    by blast
  from ys(3) have "\<exists>d. ?xs ! 9 = JObj d \<and>
           ys ! 9 = [(''quote'', case map_of d ''q'' of None \<Rightarrow> JStr [] | Some v \<Rightarrow> v),
                     (''author'', case map_of d ''a'' of None \<Rightarrow> JStr [] | Some v \<Rightarrow> v)]"
    by simp
  then have "ys ! 9 = [(''quote'', JStr ''Be''), (''author'', JStr ''A B'')]"
    by (auto simp: nth_append)
  with h1 h3 ys(1,2) show ?thesis by (intro conjI exI [of _ ys]) simp_all
qed

text \<open>
  Against C10 as stated: an element whose \<open>q\<close> is \<^verbatim>\<open>null\<close> gives an entry whose
  \<open>quote\<close> is \<^verbatim>\<open>null\<close>, not a string; the default of \<^verbatim>\<open>get\<close> stands in for a
  missing key only.
\<close>

theorem fetch_quotes_null_field:
  "fetch_quotes (Inr \<lparr>status_code = 200,
       body_json = Some (JArr [JObj [(''q'', JNull), (''a'', JStr ''A B'')]])\<rparr>) 10 =
     Inr [[(''quote'', JNull), (''author'', JStr ''A B'')]]"
  by (simp add: fetch_quotes_def raise_for_status_def slice_to_def dict_get_def)

text \<open>
  C10, amended. For a successful response whose body is an array, the elements taken
  from it objects, every entry returned has exactly the keys \<open>quote\<close> and \<open>author\<close>;
  each holds the value the element has under \<open>q\<close> or \<open>a\<close>, unchanged (so a string when
  that value is a string), and the empty string when the element lacks the key. An
  array of at most \<open>max_entries\<close> elements yields all of its elements.
\<close>

theorem fetch_quotes_fields:
  assumes "raise_for_status r = Inr ()" and "body_json r = Some (JArr xs)"
      and "\<forall>x \<in> set (slice_to xs n). \<exists>d. x = JObj d"
  shows "\<exists>ys. fetch_quotes (Inr r) n = Inr ys \<and> length ys = length (slice_to xs n) \<and>
           (\<forall>i < length ys. \<exists>d. xs ! i = JObj d \<and>
              map fst (ys ! i) = [''quote'', ''author''] \<and>
              map_of (ys ! i) ''quote'' = Some (case map_of d ''q'' of None \<Rightarrow> JStr [] | Some v \<Rightarrow> v) \<and>
              map_of (ys ! i) ''author'' = Some (case map_of d ''a'' of None \<Rightarrow> JStr [] | Some v \<Rightarrow> v)) \<and>
           (int (length xs) \<le> n \<longrightarrow> length ys = length xs)"
proof -
  from comprehension_quote_entry [OF assms(3)] obtain ys where
    ys: "comprehension quote_entry (slice_to xs n) = Inr ys" "length ys = length (slice_to xs n)"
        "\<forall>i < length (slice_to xs n). \<exists>d. slice_to xs n ! i = JObj d \<and>
           ys ! i = [(''quote'', dict_get d ''q'' (JStr [])), (''author'', dict_get d ''a'' (JStr []))]"
    by blast
  have nth: "slice_to xs n ! i = xs ! i" if "i < length (slice_to xs n)" for i
    using that by (auto simp: slice_to_def split: if_splits)
  have fields: "\<forall>i < length ys. \<exists>d. xs ! i = JObj d \<and>
              map fst (ys ! i) = [''quote'', ''author''] \<and>
              map_of (ys ! i) ''quote'' = Some (case map_of d ''q'' of None \<Rightarrow> JStr [] | Some v \<Rightarrow> v) \<and>
              map_of (ys ! i) ''author'' = Some (case map_of d ''a'' of None \<Rightarrow> JStr [] | Some v \<Rightarrow> v)"
  proof (intro allI impI)
    fix i
    assume "i < length ys"
    then have i: "i < length (slice_to xs n)" using ys(2) by simp
    with ys(3) obtain d where d: "slice_to xs n ! i = JObj d"
      "ys ! i = [(''quote'', dict_get d ''q'' (JStr [])), (''author'', dict_get d ''a'' (JStr []))]"
      by blast
    from d(1) nth [OF i] have "xs ! i = JObj d" by simp
    with d(2) show "\<exists>d. xs ! i = JObj d \<and>
              map fst (ys ! i) = [''quote'', ''author''] \<and>
              map_of (ys ! i) ''quote'' = Some (case map_of d ''q'' of None \<Rightarrow> JStr [] | Some v \<Rightarrow> v) \<and>
              map_of (ys ! i) ''author'' = Some (case map_of d ''a'' of None \<Rightarrow> JStr [] | Some v \<Rightarrow> v)"
      by (auto simp: dict_get_def)
  qed
  have all: "int (length xs) \<le> n \<longrightarrow> length ys = length xs"
    using ys(2) by (auto simp: slice_to_def)
  from ys(1,2) fields all fetch_quotes_array [OF assms(1,2), of n] show ?thesis by auto
qed

text \<open>
  Two elements, fewer than 10: both come back; the second lacks \<open>a\<close> and gets the
  empty string.
\<close>

theorem fetch_quotes_fields_witness:
  "raise_for_status \<lparr>status_code = 200, body_json = Some (JArr
       [JObj [(''q'', JStr ''Be''), (''a'', JStr ''A B'')], JObj [(''q'', JStr ''Do'')]])\<rparr> = Inr () \<and>
   (\<exists>ys. fetch_quotes (Inr \<lparr>status_code = 200, body_json = Some (JArr
             [JObj [(''q'', JStr ''Be''), (''a'', JStr ''A B'')], JObj [(''q'', JStr ''Do'')]])\<rparr>) 10 = Inr ys \<and>
          length ys = 2 \<and>
          map fst (ys ! 1) = [''quote'', ''author''] \<and>
          map_of (ys ! 1) ''quote'' = Some (JStr ''Do'') \<and>
          map_of (ys ! 1) ''author'' = Some (JStr []))"
proof -
  let ?xs = "[JObj [(''q'', JStr ''Be''), (''a'', JStr ''A B'')], JObj [(''q'', JStr ''Do'')]]"
  let ?r = "\<lparr>status_code = 200, body_json = Some (JArr ?xs)\<rparr>"
  have h1: "raise_for_status ?r = Inr ()" by (simp add: raise_for_status_def)
  have h2: "body_json ?r = Some (JArr ?xs)" by simp
  have h3: "\<forall>x \<in> set (slice_to ?xs 10). \<exists>d. x = JObj d" by (simp add: slice_to_def)
  from fetch_quotes_fields [OF h1 h2 h3] obtain ys where
    ys: "fetch_quotes (Inr ?r) 10 = Inr ys" "length ys = length (slice_to ?xs 10)"
        "\<forall>i < length ys. \<exists>d. ?xs ! i = JObj d \<and>
              map fst (ys ! i) = [''quote'', ''author''] \<and>
              map_of (ys ! i) ''quote'' = Some (case map_of d ''q'' of None \<Rightarrow> JStr [] | Some v \<Rightarrow> v) \<and>
              map_of (ys ! i) ''author'' = Some (case map_of d ''a'' of None \<Rightarrow> JStr [] | Some v \<Rightarrow> v)"
    by blast
  from ys(2) have l: "length ys = 2" by (simp add: slice_to_def)
  then have "1 < length ys" by simp
  with ys(3) have "\<exists>d. ?xs ! 1 = JObj d \<and>
              map fst (ys ! 1) = [''quote'', ''author''] \<and>
              map_of (ys ! 1) ''quote'' = Some (case map_of d ''q'' of None \<Rightarrow> JStr [] | Some v \<Rightarrow> v) \<and>
              map_of (ys ! 1) ''author'' = Some (case map_of d ''a'' of None \<Rightarrow> JStr [] | Some v \<Rightarrow> v)"
    by blast
  then have "map fst (ys ! 1) = [''quote'', ''author''] \<and>
          map_of (ys ! 1) ''quote'' = Some (JStr ''Do'') \<and>
          map_of (ys ! 1) ''author'' = Some (JStr [])"
    by auto
  with h1 ys(1) l show ?thesis by (intro conjI exI [of _ ys]) simp_all
qed

subsection \<open>The example run, step by step\<close>

lemma demo_sel:
  "ext_get (demo_world a) = Inr \<lparr>status_code = 200, body_json = Some demo_quotes\<rparr>"
  "ext_utcnow (demo_world a) = demo_now"
  "ext_isoformat (demo_world a) = demo_isoformat"
  "ext_str (demo_world a) = (\<lambda>v. ''None'')"
  "ext_synthesize_voice (demo_world a) = (\<lambda>t p. touch p)"
  "ext_generate_broll_slide (demo_world a) = (\<lambda>e p. touch p)"
  "ext_assemble_video (demo_world a) = (\<lambda>v sl p. touch p)"
  "ext_image_open (demo_world a) = (\<lambda>p f. Inr (1280, 720))"
  "ext_textbbox (demo_world a) = (\<lambda>t. Inr (0, 0, 501, 60))"
  "ext_image_save (demo_world a) = touch"
  "ext_refresh (demo_world a) = (\<lambda>c. Inr (c\<lparr>valid := True, expired := False\<rparr>))"
  "ext_run_local_server (demo_world a) = Inr demo_creds"
  "ext_build (demo_world a) = (\<lambda>c. None)"
  "ext_media_file_upload (demo_world a) = (\<lambda>p f. None)"
  "ext_execute (demo_world a) = (\<lambda>yt b p. a p)"
  by (simp_all add: demo_world_def)

lemmas run_defs =
  main_item_def item_media_def upload_video_def get_authenticated_service_def
  create_thumbnail_def synthesize_voice_def generate_broll_slide_def assemble_video_def
  io_bind_def io_log_def io_lift_def io_return_def io_raise_def io_fs_def load_token_def dump_token_def
  needs_login_def can_refresh_def truthy_def os_remove_def
  dict_getitem_def generate_hashtags_def remove_spaces_def
  publish_time_def timedelta_days_hours_def datetime_add_def MAXORDINAL_def
  make_body_def voice_path_def slide_path_def video_path_def thumb_path_def path_join_def
  OUTPUT_DIR_def TEMPLATE_THUMB_def quote_text_of_def py_str_def strip_char_def CHANNEL_ID_def
  demo_sel demo_state_def demo_creds_def touch_def demo_isoformat_def demo_start_def
  demo_entry0_def demo_entry1_def demo_text0_def demo_text1_def demo_desc0_def demo_desc1_def
  demo_tags0_def demo_tags1_def demo_media0_def demo_auth0_def demo_after0_def demo_after1_def
  first_forbidden_def

lemma demo_fetch: "fetch_quotes (ext_get (demo_world a)) 10 = Inr [demo_entry0, demo_entry1]"
  by (simp add: demo_sel fetch_quotes_def raise_for_status_def demo_quotes_def slice_to_def
      dict_get_def demo_entry0_def demo_entry1_def)

lemma demo_start_of: "start_of demo_now = demo_start"
  by (simp add: start_of_def demo_now_def demo_start_def)

lemma demo_item_media0:
  "item_media (demo_world a) demo_start 0 demo_entry0 demo_state =
     (Inr (''temp/video_0.mp4'', ''Inspiration: A B'', demo_desc0, demo_tags0, ''2024-05-01T09:00:00Z''),
      demo_media0)"
  by (simp add: run_defs Let_def insert_commute)

lemma demo_authenticate0:
  "get_authenticated_service (demo_world a)
     (demo_media0\<lparr>trace := trace demo_media0 @
        [Upload ''temp/video_0.mp4'' ''Inspiration: A B'' demo_desc0 demo_tags0 ''2024-05-01T09:00:00Z'']\<rparr>)
     = (Inr (Client demo_creds), demo_auth0)"
  by (simp add: run_defs Let_def)

lemma demo_main_item0:
  "main_item (demo_world first_forbidden) demo_start 0 demo_entry0 demo_state = (Inr (), demo_after0)"
  by (simp add: run_defs Let_def api_not_enabled_message_def insert_Diff_if)

lemma demo_main_item1:
  "main_item (demo_world first_forbidden) demo_start (Suc 0) demo_entry1 demo_after0 = (Inr (), demo_after1)"
  by (simp add: run_defs Let_def api_not_enabled_message_def insert_Diff_if)

lemma demo_main:
  "main (demo_world first_forbidden) demo_state = (Inr (), demo_after1)"
  by (simp add: main_def io_bind_def io_lift_def demo_fetch demo_sel(2) demo_start_of
      demo_main_item0 demo_main_item1)

subsection \<open>The schedule\<close>

lemma io_bind_cases:
  assumes "io_bind m f s = (r, s')"
  shows "(\<exists>e. m s = (Inl e, s') \<and> r = Inl e) \<or> (\<exists>x s1. m s = (Inr x, s1) \<and> f x s1 = (r, s'))"
  using assms by (auto simp: io_bind_def split: prod.splits sum.splits)






subsection \<open>The thumbnail\<close>

lemma create_thumbnail_run:
  assumes "ext_image_open w template (fs s) = Inr (W, H)"
      and "ext_textbbox w title = Inr (b0, b1, b2, b3)"
  shows "trace (snd (create_thumbnail w title template out_path s)) =
           trace s @ [Thumbnail title template out_path,
                      DrawText ((W - (b2 - b0)) div 2) (H - (b3 - b1) - 50) title]"
  using assms
  by (simp add: create_thumbnail_def io_bind_def io_log_def io_lift_def io_fs_def Let_def
      split: prod.splits option.splits)

lemma half_floor:
  "(rat_of_int (a div 2) = rat_of_int a / 2) = even a"
proof
  assume "rat_of_int (a div 2) = rat_of_int a / 2"
  then have "rat_of_int (2 * (a div 2)) = rat_of_int a" by simp
  then have "2 * (a div 2) = a" by (simp only: of_int_eq_iff)
  then show "even a" by presburger
next
  assume "even a"
  then obtain k where "a = 2 * k" by (auto elim: evenE)
  then show "rat_of_int (a div 2) = rat_of_int a / 2" by simp
qed

text \<open>
  Against C8 as stated: on a template 1280 pixels wide, a title measured 501 pixels
  wide is drawn at x = 389, and (1280 - 501) / 2 is 389.5.
\<close>

theorem create_thumbnail_odd_width:
  "ext_image_open (demo_world first_forbidden) TEMPLATE_THUMB (fs demo_state) = Inr (1280, 720) \<and>
   ext_textbbox (demo_world first_forbidden) ''Inspiration: C'' = Inr (0, 0, 501, 60) \<and>
   trace (snd (create_thumbnail (demo_world first_forbidden) ''Inspiration: C'' TEMPLATE_THUMB
                 ''temp/thumb_1.png'' demo_state)) =
     [Thumbnail ''Inspiration: C'' TEMPLATE_THUMB ''temp/thumb_1.png'',
      DrawText 389 610 ''Inspiration: C''] \<and>
   rat_of_int 389 \<noteq> (1280 - 501) / 2"
  by (simp add: demo_sel create_thumbnail_def io_bind_def io_log_def io_lift_def io_fs_def Let_def
      touch_def demo_state_def)

text \<open>
  C8, amended. \<^verbatim>\<open>create_thumbnail\<close> draws the title at x = (W - T) div 2, the quotient
  rounded down, where W is the width of the template and T the width of the measured
  bounding box: twice x is W - T or W - T - 1, and x is (W - T) / 2 exactly when W - T is even.
  The y-offset is the height of the template minus the height of the box minus 50.
\<close>

theorem create_thumbnail_text_position:
  assumes "ext_image_open w template (fs s) = Inr (W, H)"
      and "ext_textbbox w title = Inr (b0, b1, b2, b3)"
  shows "trace (snd (create_thumbnail w title template out_path s)) =
           trace s @ [Thumbnail title template out_path,
                      DrawText ((W - (b2 - b0)) div 2) (H - (b3 - b1) - 50) title] \<and>
         2 * ((W - (b2 - b0)) div 2) \<le> W - (b2 - b0) \<and>
         W - (b2 - b0) \<le> 2 * ((W - (b2 - b0)) div 2) + 1 \<and>
         (rat_of_int ((W - (b2 - b0)) div 2) = rat_of_int (W - (b2 - b0)) / 2) = even (W - (b2 - b0))"
proof (intro conjI)
  show "trace (snd (create_thumbnail w title template out_path s)) =
           trace s @ [Thumbnail title template out_path,
                      DrawText ((W - (b2 - b0)) div 2) (H - (b3 - b1) - 50) title]"
    by (rule create_thumbnail_run [OF assms])
  show "2 * ((W - (b2 - b0)) div 2) \<le> W - (b2 - b0)" by presburger
  show "W - (b2 - b0) \<le> 2 * ((W - (b2 - b0)) div 2) + 1" by presburger
  show "(rat_of_int ((W - (b2 - b0)) div 2) = rat_of_int (W - (b2 - b0)) / 2) = even (W - (b2 - b0))"
    by (rule half_floor)
qed

text \<open>A title 500 pixels wide on the same template is drawn at x = 390, the exact centre.\<close>

theorem create_thumbnail_text_position_witness:
  "ext_image_open (demo_world first_forbidden) TEMPLATE_THUMB (fs demo_state) = Inr (1280, 720) \<and>
   ext_textbbox ((demo_world first_forbidden)\<lparr>ext_textbbox := \<lambda>t. Inr (2, 0, 502, 60)\<rparr>)
     ''Inspiration: C'' = Inr (2, 0, 502, 60) \<and>
   trace (snd (create_thumbnail ((demo_world first_forbidden)\<lparr>ext_textbbox := \<lambda>t. Inr (2, 0, 502, 60)\<rparr>)
                 ''Inspiration: C'' TEMPLATE_THUMB ''temp/thumb_1.png'' demo_state)) =
     [Thumbnail ''Inspiration: C'' TEMPLATE_THUMB ''temp/thumb_1.png'',
      DrawText 390 610 ''Inspiration: C''] \<and>
   rat_of_int 390 = (1280 - 500) / 2"
proof -
  let ?w = "(demo_world first_forbidden)\<lparr>ext_textbbox := \<lambda>t. Inr (2, 0, 502, 60)\<rparr>"
  have h1: "ext_image_open ?w TEMPLATE_THUMB (fs demo_state) = Inr (1280, 720)"
    by (simp add: demo_sel)
  have h2: "ext_textbbox ?w ''Inspiration: C'' = Inr (2, 0, 502, 60)" by simp
  from create_thumbnail_text_position [OF h1 h2, of "''temp/thumb_1.png''"]
  have "trace (snd (create_thumbnail ?w ''Inspiration: C'' TEMPLATE_THUMB ''temp/thumb_1.png'' demo_state)) =
     [Thumbnail ''Inspiration: C'' TEMPLATE_THUMB ''temp/thumb_1.png'',
      DrawText 390 610 ''Inspiration: C'']"
    by (simp add: demo_state_def)
  with h1 h2 show ?thesis by (simp add: demo_sel)
qed

subsection \<open>Cleanup\<close>

lemma cleanup_total:
  "fst (cleanup paths s) = Inr () \<and>
   trace (snd (cleanup paths s)) = trace s @ map Remove paths \<and>
   token_pickle (snd (cleanup paths s)) = token_pickle s \<and>
   locked (fs (snd (cleanup paths s))) = locked (fs s) \<and>
   files (fs (snd (cleanup paths s))) = files (fs s) - (set paths - locked (fs s))"
proof (induction paths arbitrary: s)
  case Nil
  then show ?case by simp
next
  case (Cons p ps)
  let ?s = "s\<lparr>trace := trace s @ [Remove p]\<rparr>"
  show ?case
  proof (cases "p \<in> files (fs s) \<and> p \<notin> locked (fs s)")
    case False
    then have "cleanup (p # ps) s = cleanup ps ?s"
      by (auto simp: os_remove_def Let_def)
    then show ?thesis using Cons.IH [of ?s] False by auto
  next
    case True
    let ?t = "s\<lparr>trace := trace s @ [Remove p], fs := (fs s)\<lparr>files := files (fs s) - {p}\<rparr>\<rparr>"
    from True have "cleanup (p # ps) s = cleanup ps ?t"
      by (simp add: os_remove_def Let_def)
    then show ?thesis using Cons.IH [of ?t] True by auto
  qed
qed

lemma filesys_eq: "files (a :: filesys) = files b \<Longrightarrow> locked a = locked b \<Longrightarrow> a = b"
  by simp

text \<open>
  C9. The cleanup never raises, whatever the state of the file system: \<^verbatim>\<open>os.remove\<close>
  is called on every path in turn (a failure does not stop the loop), the paths that
  exist and can be removed are gone afterwards, and a second cleanup of the same paths
  does not raise either and leaves the file system as it is. \<^verbatim>\<open>os.remove\<close> itself
  raises \<open>FileNotFoundError\<close> exactly on a path that does not exist.
\<close>

theorem cleanup_swallows_errors:
  "fst (cleanup paths s) = Inr () \<and>
   trace (snd (cleanup paths s)) = trace s @ map Remove paths \<and>
   files (fs (snd (cleanup paths s))) = files (fs s) - (set paths - locked (fs s)) \<and>
   locked (fs (snd (cleanup paths s))) = locked (fs s) \<and>
   fst (cleanup paths (snd (cleanup paths s))) = Inr () \<and>
   fs (snd (cleanup paths (snd (cleanup paths s)))) = fs (snd (cleanup paths s)) \<and>
   (fst (os_remove p s) = Inl FileNotFoundError) = (p \<notin> files (fs s))"
proof -
  let ?s = "snd (cleanup paths s)"
  note a = cleanup_total [of paths s]
  note b = cleanup_total [of paths ?s]
  have "files (fs (snd (cleanup paths ?s))) = files (fs ?s)"
    using a b by auto
  moreover have "locked (fs (snd (cleanup paths ?s))) = locked (fs ?s)"
    using b by simp
  ultimately have "fs (snd (cleanup paths ?s)) = fs ?s" by (rule filesys_eq)
  moreover have "(fst (os_remove p s) = Inl FileNotFoundError) = (p \<notin> files (fs s))"
    by (simp add: os_remove_def Let_def)
  ultimately show ?thesis using a b by simp
qed

text \<open>
  The four files of item 0 when the voice file exists, the video file exists and
  cannot be removed, and the other two do not exist.
\<close>

theorem cleanup_swallows_errors_witness:
  "fst (cleanup [''temp/voice_0.mp3'', ''temp/slide_0.mp4'', ''temp/video_0.mp4'', ''temp/thumb_0.png'']
     \<lparr>fs = \<lparr>files = {''temp/voice_0.mp3'', ''temp/video_0.mp4''}, locked = {''temp/video_0.mp4''}\<rparr>,
      token_pickle = None, trace = []\<rparr>) = Inr () \<and>
   trace (snd (cleanup [''temp/voice_0.mp3'', ''temp/slide_0.mp4'', ''temp/video_0.mp4'', ''temp/thumb_0.png'']
     \<lparr>fs = \<lparr>files = {''temp/voice_0.mp3'', ''temp/video_0.mp4''}, locked = {''temp/video_0.mp4''}\<rparr>,
      token_pickle = None, trace = []\<rparr>)) =
     [Remove ''temp/voice_0.mp3'', Remove ''temp/slide_0.mp4'', Remove ''temp/video_0.mp4'',
      Remove ''temp/thumb_0.png''] \<and>
   files (fs (snd (cleanup [''temp/voice_0.mp3'', ''temp/slide_0.mp4'', ''temp/video_0.mp4'', ''temp/thumb_0.png'']
     \<lparr>fs = \<lparr>files = {''temp/voice_0.mp3'', ''temp/video_0.mp4''}, locked = {''temp/video_0.mp4''}\<rparr>,
      token_pickle = None, trace = []\<rparr>))) = {''temp/video_0.mp4''} \<and>
   fst (os_remove ''temp/slide_0.mp4''
     \<lparr>fs = \<lparr>files = {''temp/voice_0.mp3'', ''temp/video_0.mp4''}, locked = {''temp/video_0.mp4''}\<rparr>,
      token_pickle = None, trace = []\<rparr>) = Inl FileNotFoundError"
proof -
  let ?ps = "[''temp/voice_0.mp3'', ''temp/slide_0.mp4'', ''temp/video_0.mp4'', ''temp/thumb_0.png'']"
  let ?s = "\<lparr>fs = \<lparr>files = {''temp/voice_0.mp3'', ''temp/video_0.mp4''}, locked = {''temp/video_0.mp4''}\<rparr>,
      token_pickle = None, trace = []\<rparr>"
  note c = cleanup_swallows_errors [of ?ps ?s "''temp/slide_0.mp4''"]
  have "files (fs ?s) - (set ?ps - locked (fs ?s)) = {''temp/video_0.mp4''}"
    by auto
  with c show ?thesis by simp
qed

subsection \<open>What each stage adds to the trace\<close>

lemma synthesize_voice_trace:
  "synthesize_voice w t p s = (r, s') \<Longrightarrow> trace s' = trace s @ [Synthesize t p]"
  by (auto simp: synthesize_voice_def io_bind_def io_log_def io_fs_def
      split: prod.splits sum.splits option.splits)

lemma generate_broll_slide_trace:
  "generate_broll_slide w e p s = (r, s') \<Longrightarrow> trace s' = trace s @ [Slide e p]"
  by (auto simp: generate_broll_slide_def io_bind_def io_log_def io_fs_def
      split: prod.splits sum.splits option.splits)

lemma assemble_video_trace:
  "assemble_video w v sl p s = (r, s') \<Longrightarrow> trace s' = trace s @ [Assemble v sl p]"
  by (auto simp: assemble_video_def io_bind_def io_log_def io_fs_def
      split: prod.splits sum.splits option.splits)

lemma create_thumbnail_trace:
  "create_thumbnail w t tp p s = (r, s') \<Longrightarrow>
     trace s' = trace s @ [Thumbnail t tp p] \<or>
     (\<exists>x y. trace s' = trace s @ [Thumbnail t tp p, DrawText x y t])"
  by (auto simp: create_thumbnail_def io_bind_def io_log_def io_fs_def io_lift_def Let_def
      split: prod.splits sum.splits option.splits)

lemma item_media_trace:
  assumes "item_media w start idx entry s = (r, s')"
  shows "\<exists>evs. trace s' = trace s @ evs \<and> count_list evs Authenticate = 0 \<and>
           filter is_Upload evs = [] \<and> filter is_Build evs = []"
  using assms unfolding item_media_def Let_def
  by (auto simp: io_lift_def io_return_def dest!: io_bind_cases
       synthesize_voice_trace generate_broll_slide_trace assemble_video_trace create_thumbnail_trace)

lemma item_media_first:
  assumes "dict_getitem entry ''author'' = Inr a" and "dict_getitem entry ''quote'' = Inr q"
      and "item_media w start k entry s = (r, s')"
  shows "\<exists>evs. trace s' = trace s @ Synthesize (quote_text_of w q a) (voice_path k) # evs"
  using assms unfolding item_media_def Let_def
  by (auto simp: io_lift_def io_return_def dest!: io_bind_cases
       synthesize_voice_trace generate_broll_slide_trace assemble_video_trace create_thumbnail_trace)

lemma get_authenticated_service_trace:
  assumes "get_authenticated_service w s = (r, s')"
  shows "\<exists>evs. trace s' = trace s @ Authenticate # evs \<and> count_list evs Authenticate = 0 \<and>
           filter is_Upload evs = [] \<and> length (filter is_Build evs) \<le> 1 \<and>
           ((\<exists>yt. r = Inr yt) \<longrightarrow> length (filter is_Build evs) = 1)"
  using assms
  by (auto simp: get_authenticated_service_def io_bind_def io_log_def io_lift_def io_return_def
        io_raise_def load_token_def dump_token_def
      split: prod.splits sum.splits option.splits if_splits)

lemma upload_video_trace:
  assumes "upload_video w v t d tg p s = (r, s')"
  shows "\<exists>evs. trace s' = trace s @ Upload v t d tg p # Authenticate # evs \<and>
           count_list evs Authenticate = 0 \<and> filter is_Upload evs = [] \<and>
           length (filter is_Build evs) \<le> 1 \<and>
           (r = Inr () \<longrightarrow> length (filter is_Build evs) = 1)"
proof -
  let ?s0 = "s\<lparr>trace := trace s @ [Upload v t d tg p]\<rparr>"
  obtain ra s1 where a: "get_authenticated_service w ?s0 = (ra, s1)" by force
  from get_authenticated_service_trace [OF a] obtain evs where
    evs: "trace s1 = trace s @ Upload v t d tg p # Authenticate # evs"
         "count_list evs Authenticate = 0" "filter is_Upload evs = []"
         "length (filter is_Build evs) \<le> 1"
         "(\<exists>yt. ra = Inr yt) \<longrightarrow> length (filter is_Build evs) = 1"
    by auto
  show ?thesis
  proof (cases ra)
    case (Inl e)
    with a assms have "s' = s1" "r = Inl e"
      by (simp_all add: upload_video_def io_bind_def io_log_def)
    with evs show ?thesis by auto
  next
    case (Inr yt)
    with a assms have
      "\<exists>evs'. trace s' = trace s1 @ evs' \<and> count_list evs' Authenticate = 0 \<and>
          filter is_Upload evs' = [] \<and> filter is_Build evs' = []"
      by (auto simp: upload_video_def io_bind_def io_log_def io_return_def io_raise_def Let_def
          split: option.splits sum.splits exn.splits if_splits)
    then obtain evs' where
      evs': "trace s' = trace s1 @ evs'" "count_list evs' Authenticate = 0"
            "filter is_Upload evs' = []" "filter is_Build evs' = []"
      by blast
    from Inr evs(5) have "length (filter is_Build evs) = 1" by simp
    with evs evs' have
      "trace s' = trace s @ Upload v t d tg p # Authenticate # (evs @ evs') \<and>
       count_list (evs @ evs') Authenticate = 0 \<and> filter is_Upload (evs @ evs') = [] \<and>
       length (filter is_Build (evs @ evs')) \<le> 1 \<and>
       (r = Inr () \<longrightarrow> length (filter is_Build (evs @ evs')) = 1)"
      by simp
    then show ?thesis by blast
  qed
qed

lemma main_item_trace:
  assumes "main_item w start idx entry s = (r, s')"
  shows "\<exists>evs. trace s' = trace s @ evs \<and>
           count_list evs Authenticate = length (filter is_Upload evs) \<and>
           count_list evs Authenticate \<le> 1 \<and>
           length (filter is_Build evs) \<le> count_list evs Authenticate \<and>
           (r = Inr () \<longrightarrow> count_list evs Authenticate = 1 \<and> length (filter is_Build evs) = 1)"
proof -
  obtain rm s1 where m: "item_media w start idx entry s = (rm, s1)" by force
  from item_media_trace [OF m] obtain e1 where
    e1: "trace s1 = trace s @ e1" "count_list e1 Authenticate = 0"
        "filter is_Upload e1 = []" "filter is_Build e1 = []"
    by blast
  show ?thesis
  proof (cases rm)
    case (Inl e)
    with m assms have "s' = s1" "r = Inl e"
      by (simp_all add: main_item_def io_bind_def)
    with e1 show ?thesis by auto
  next
    case (Inr args)
    obtain v t d tg p where args: "args = (v, t, d, tg, p)" by (cases args) auto
    obtain ru s2 where u: "upload_video w v t d tg p s1 = (ru, s2)" by force
    from upload_video_trace [OF u] obtain e2 where
      e2: "trace s2 = trace s1 @ Upload v t d tg p # Authenticate # e2"
          "count_list e2 Authenticate = 0" "filter is_Upload e2 = []"
          "length (filter is_Build e2) \<le> 1"
          "ru = Inr () \<longrightarrow> length (filter is_Build e2) = 1"
      by blast
    show ?thesis
    proof (cases ru)
      case (Inl e)
      with m u Inr args assms have "s' = s2" "r = Inl e"
        by (simp_all add: main_item_def io_bind_def)
      with e1 e2 show ?thesis by auto
    next
      case (Inr u')
      let ?ps = "[voice_path idx, slide_path idx, video_path idx, thumb_path idx]"
      from m u Inr \<open>rm = Inr args\<close> args assms have "cleanup ?ps s2 = (r, s')"
        by (simp add: main_item_def io_bind_def)
      with cleanup_total [of ?ps s2] have "trace s' = trace s2 @ map Remove ?ps"
        by simp
      with e1 e2 Inr show ?thesis by auto
    qed
  qed
qed

lemma main_item_first:
  assumes "dict_getitem entry ''author'' = Inr a" and "dict_getitem entry ''quote'' = Inr q"
      and "main_item w start k entry s = (r, s')"
  shows "\<exists>evs. trace s' = trace s @ Synthesize (quote_text_of w q a) (voice_path k) # evs"
proof -
  obtain rm s1 where m: "item_media w start k entry s = (rm, s1)" by force
  from item_media_first [OF assms(1,2) m] obtain e1 where
    e1: "trace s1 = trace s @ Synthesize (quote_text_of w q a) (voice_path k) # e1" by blast
  show ?thesis
  proof (cases rm)
    case (Inl e)
    with m assms(3) have "s' = s1" by (simp add: main_item_def io_bind_def)
    with e1 show ?thesis by blast
  next
    case (Inr args)
    obtain v t d tg p where args: "args = (v, t, d, tg, p)" by (cases args) auto
    obtain ru s2 where u: "upload_video w v t d tg p s1 = (ru, s2)" by force
    from upload_video_trace [OF u] obtain e2 where e2: "trace s2 = trace s1 @ e2" by blast
    show ?thesis
    proof (cases ru)
      case (Inl e)
      with m u Inr args assms(3) have "s' = s2" by (simp add: main_item_def io_bind_def)
      with e1 e2 show ?thesis by auto
    next
      case (Inr u')
      let ?ps = "[voice_path k, slide_path k, video_path k, thumb_path k]"
      from m u Inr \<open>rm = Inr args\<close> args assms(3) have "cleanup ?ps s2 = (r, s')"
        by (simp add: main_item_def io_bind_def)
      with cleanup_total [of ?ps s2] have "trace s' = trace s2 @ map Remove ?ps" by simp
      with e1 e2 show ?thesis by auto
    qed
  qed
qed

lemma main_loop_trace:
  assumes "main_loop w start its s = (r, s')"
  shows "\<exists>evs. trace s' = trace s @ evs \<and>
           count_list evs Authenticate = length (filter is_Upload evs) \<and>
           count_list evs Authenticate \<le> length its \<and>
           length (filter is_Build evs) \<le> count_list evs Authenticate \<and>
           (r = Inr () \<longrightarrow> count_list evs Authenticate = length its \<and>
                            length (filter is_Build evs) = length its)"
  using assms
proof (induction its arbitrary: s)
  case Nil
  then show ?case by auto
next
  case (Cons it its)
  obtain idx entry where it: "it = (idx, entry)" by (cases it) auto
  obtain ri s1 where i: "main_item w start idx entry s = (ri, s1)" by force
  from main_item_trace [OF i] obtain e1 where
    e1: "trace s1 = trace s @ e1" "count_list e1 Authenticate = length (filter is_Upload e1)"
        "count_list e1 Authenticate \<le> 1"
        "length (filter is_Build e1) \<le> count_list e1 Authenticate"
        "ri = Inr () \<longrightarrow> count_list e1 Authenticate = 1 \<and> length (filter is_Build e1) = 1"
    by blast
  show ?case
  proof (cases ri)
    case (Inl e)
    with i it Cons.prems have "s' = s1" "r = Inl e" by simp_all
    with e1 show ?thesis by auto
  next
    case (Inr u)
    with i it Cons.prems have "main_loop w start its s1 = (r, s')" by simp
    from Cons.IH [OF this] obtain e2 where
      e2: "trace s' = trace s1 @ e2" "count_list e2 Authenticate = length (filter is_Upload e2)"
          "count_list e2 Authenticate \<le> length its"
          "length (filter is_Build e2) \<le> count_list e2 Authenticate"
          "r = Inr () \<longrightarrow> count_list e2 Authenticate = length its \<and>
                            length (filter is_Build e2) = length its"
      by blast
    from Inr e1(5) have "count_list e1 Authenticate = 1" "length (filter is_Build e1) = 1"
      by simp_all
    with e1 e2 have
      "trace s' = trace s @ (e1 @ e2) \<and>
       count_list (e1 @ e2) Authenticate = length (filter is_Upload (e1 @ e2)) \<and>
       count_list (e1 @ e2) Authenticate \<le> length (it # its) \<and>
       length (filter is_Build (e1 @ e2)) \<le> count_list (e1 @ e2) Authenticate \<and>
       (r = Inr () \<longrightarrow> count_list (e1 @ e2) Authenticate = length (it # its) \<and>
                        length (filter is_Build (e1 @ e2)) = length (it # its))"
      by auto
    then show ?thesis by blast
  qed
qed

lemma main_loop_first:
  assumes "dict_getitem entry ''author'' = Inr a" and "dict_getitem entry ''quote'' = Inr q"
  shows "\<exists>evs. trace (snd (main_loop w start ((k, entry) # rest) s)) =
            trace s @ Synthesize (quote_text_of w q a) (voice_path k) # evs"
proof -
  obtain ri s1 where i: "main_item w start k entry s = (ri, s1)" by force
  from main_item_first [OF assms i] obtain e1 where
    e1: "trace s1 = trace s @ Synthesize (quote_text_of w q a) (voice_path k) # e1" by blast
  show ?thesis
  proof (cases ri)
    case (Inl e)
    with i e1 show ?thesis by simp
  next
    case (Inr u)
    obtain r s' where l: "main_loop w start rest s1 = (r, s')" by force
    from main_loop_trace [OF l] obtain e2 where "trace s' = trace s1 @ e2" by blast
    with i Inr l e1 show ?thesis by simp
  qed
qed

subsection \<open>Upload errors\<close>

lemma upload_video_on_HttpError:
  assumes "get_authenticated_service w
             (s\<lparr>trace := trace s @ [Upload video_fp title desc tags publish_at]\<rparr>) = (Inr yt, s1)"
      and "ext_media_file_upload w video_fp (fs s1) = None"
      and "ext_execute w yt (make_body title desc tags publish_at) video_fp = Inl (HttpError st)"
  shows "upload_video w video_fp title desc tags publish_at s =
           (if st = 403
            then (Inr (), s1\<lparr>trace := trace s1 @
                    [Insert (make_body title desc tags publish_at) video_fp,
                     Print api_not_enabled_message]\<rparr>)
            else (Inl (HttpError st), s1\<lparr>trace := trace s1 @
                    [Insert (make_body title desc tags publish_at) video_fp]\<rparr>))"
  using assms
  by (simp add: upload_video_def io_bind_def io_log_def io_return_def io_raise_def Let_def)

text \<open>
  C4. When the upload request raises an \<open>HttpError\<close> (the client was obtained and the
  media object made), \<^verbatim>\<open>upload_video\<close> on status 403 prints the remediation message
  and returns normally, and on every other status raises the same error again, having
  printed nothing.
\<close>

theorem upload_video_http_error:
  assumes "get_authenticated_service w
             (s\<lparr>trace := trace s @ [Upload video_fp title desc tags publish_at]\<rparr>) = (Inr yt, s1)"
      and "ext_media_file_upload w video_fp (fs s1) = None"
      and "ext_execute w yt (make_body title desc tags publish_at) video_fp = Inl (HttpError st)"
  shows "upload_video w video_fp title desc tags publish_at s =
           (if st = 403
            then (Inr (), s1\<lparr>trace := trace s1 @
                    [Insert (make_body title desc tags publish_at) video_fp,
                     Print api_not_enabled_message]\<rparr>)
            else (Inl (HttpError st), s1\<lparr>trace := trace s1 @
                    [Insert (make_body title desc tags publish_at) video_fp]\<rparr>))"
  using assms
  by (simp add: upload_video_def io_bind_def io_log_def io_return_def io_raise_def Let_def)

text \<open>
  The upload of the first video of the example, answered by 403 in one world and by
  500 in another.
\<close>

theorem upload_video_http_error_witness:
  "get_authenticated_service (demo_world first_forbidden)
     (demo_media0\<lparr>trace := trace demo_media0 @
        [Upload ''temp/video_0.mp4'' ''Inspiration: A B'' demo_desc0 demo_tags0 ''2024-05-01T09:00:00Z'']\<rparr>)
     = (Inr (Client demo_creds), demo_auth0) \<and>
   ext_media_file_upload (demo_world first_forbidden) ''temp/video_0.mp4'' (fs demo_auth0) = None \<and>
   ext_execute (demo_world first_forbidden) (Client demo_creds)
     (make_body ''Inspiration: A B'' demo_desc0 demo_tags0 ''2024-05-01T09:00:00Z'') ''temp/video_0.mp4''
     = Inl (HttpError 403) \<and>
   upload_video (demo_world first_forbidden) ''temp/video_0.mp4'' ''Inspiration: A B'' demo_desc0
       demo_tags0 ''2024-05-01T09:00:00Z'' demo_media0 =
     (Inr (), demo_auth0\<lparr>trace := trace demo_auth0 @
        [Insert (make_body ''Inspiration: A B'' demo_desc0 demo_tags0 ''2024-05-01T09:00:00Z'')
           ''temp/video_0.mp4'',
         Print api_not_enabled_message]\<rparr>) \<and>
   ext_execute (demo_world (\<lambda>p. Inl (HttpError 500))) (Client demo_creds)
     (make_body ''Inspiration: A B'' demo_desc0 demo_tags0 ''2024-05-01T09:00:00Z'') ''temp/video_0.mp4''
     = Inl (HttpError 500) \<and>
   upload_video (demo_world (\<lambda>p. Inl (HttpError 500))) ''temp/video_0.mp4'' ''Inspiration: A B''
       demo_desc0 demo_tags0 ''2024-05-01T09:00:00Z'' demo_media0 =
     (Inl (HttpError 500), demo_auth0\<lparr>trace := trace demo_auth0 @
        [Insert (make_body ''Inspiration: A B'' demo_desc0 demo_tags0 ''2024-05-01T09:00:00Z'')
           ''temp/video_0.mp4'']\<rparr>)"
proof -
  let ?w = "demo_world first_forbidden" and ?w' = "demo_world (\<lambda>p. Inl (HttpError 500))"
  let ?b = "make_body ''Inspiration: A B'' demo_desc0 demo_tags0 ''2024-05-01T09:00:00Z''"
  have m: "ext_media_file_upload ?w ''temp/video_0.mp4'' (fs demo_auth0) = None"
          "ext_media_file_upload ?w' ''temp/video_0.mp4'' (fs demo_auth0) = None"
    by (simp_all add: demo_sel)
  have e: "ext_execute ?w (Client demo_creds) ?b ''temp/video_0.mp4'' = Inl (HttpError 403)"
    by (simp add: demo_sel first_forbidden_def)
  have e': "ext_execute ?w' (Client demo_creds) ?b ''temp/video_0.mp4'' = Inl (HttpError 500)"
    by (simp add: demo_sel)
  note u = upload_video_http_error [OF demo_authenticate0 m(1) e]
  note u' = upload_video_http_error [OF demo_authenticate0 m(2) e']
  from u have 1: "upload_video ?w ''temp/video_0.mp4'' ''Inspiration: A B'' demo_desc0
       demo_tags0 ''2024-05-01T09:00:00Z'' demo_media0 =
     (Inr (), demo_auth0\<lparr>trace := trace demo_auth0 @ [Insert ?b ''temp/video_0.mp4'',
         Print api_not_enabled_message]\<rparr>)"
    by simp
  from u' have 2: "upload_video ?w' ''temp/video_0.mp4'' ''Inspiration: A B''
       demo_desc0 demo_tags0 ''2024-05-01T09:00:00Z'' demo_media0 =
     (Inl (HttpError 500), demo_auth0\<lparr>trace := trace demo_auth0 @ [Insert ?b ''temp/video_0.mp4'']\<rparr>)"
    by simp
  from demo_authenticate0 [of first_forbidden] m(1) e 1 e' 2 show ?thesis
    by (intro conjI)
qed

subsection \<open>The loop after a refused upload\<close>

lemma demo_trace_after1:
  "trace demo_after1 =
     [Synthesize demo_text0 ''temp/voice_0.mp3'',
      Slide demo_entry0 ''temp/slide_0.mp4'',
      Assemble ''temp/voice_0.mp3'' ''temp/slide_0.mp4'' ''temp/video_0.mp4'',
      Thumbnail ''Inspiration: A B'' TEMPLATE_THUMB ''temp/thumb_0.png'',
      DrawText 389 610 ''Inspiration: A B'',
      Upload ''temp/video_0.mp4'' ''Inspiration: A B'' demo_desc0 demo_tags0 ''2024-05-01T09:00:00Z'',
      Authenticate, RunFlow, Build demo_creds,
      Insert (make_body ''Inspiration: A B'' demo_desc0 demo_tags0 ''2024-05-01T09:00:00Z'')
        ''temp/video_0.mp4'',
      Print api_not_enabled_message,
      Remove ''temp/voice_0.mp3'', Remove ''temp/slide_0.mp4'', Remove ''temp/video_0.mp4'',
      Remove ''temp/thumb_0.png'',
      Synthesize demo_text1 ''temp/voice_1.mp3'',
      Slide demo_entry1 ''temp/slide_1.mp4'',
      Assemble ''temp/voice_1.mp3'' ''temp/slide_1.mp4'' ''temp/video_1.mp4'',
      Thumbnail ''Inspiration: C'' TEMPLATE_THUMB ''temp/thumb_1.png'',
      DrawText 389 610 ''Inspiration: C'',
      Upload ''temp/video_1.mp4'' ''Inspiration: C'' demo_desc1 demo_tags1 ''2024-05-01T11:00:00Z'',
      Authenticate, Build demo_creds,
      Insert (make_body ''Inspiration: C'' demo_desc1 demo_tags1 ''2024-05-01T11:00:00Z'')
        ''temp/video_1.mp4'',
      Print ''Uploaded video ID: abc'',
      Remove ''temp/voice_1.mp3'', Remove ''temp/slide_1.mp4'', Remove ''temp/video_1.mp4'',
      Remove ''temp/thumb_1.png'']"
  by (simp add: demo_after1_def demo_after0_def demo_auth0_def demo_media0_def)

text \<open>
  Against C5 as stated: in the example run the upload of item 0 is answered by 403,
  and after the message and the cleanup of item 0 all five stages of item 1 are
  executed; the run ends normally.
\<close>

theorem main_stages_after_403:
  "first_forbidden ''temp/video_0.mp4'' = Inl (HttpError 403) \<and>
   fst (main (demo_world first_forbidden) demo_state) = Inr () \<and>
   after (Print api_not_enabled_message) (trace (snd (main (demo_world first_forbidden) demo_state))) =
     [Remove ''temp/voice_0.mp3'', Remove ''temp/slide_0.mp4'', Remove ''temp/video_0.mp4'',
      Remove ''temp/thumb_0.png'',
      Synthesize demo_text1 ''temp/voice_1.mp3'',
      Slide demo_entry1 ''temp/slide_1.mp4'',
      Assemble ''temp/voice_1.mp3'' ''temp/slide_1.mp4'' ''temp/video_1.mp4'',
      Thumbnail ''Inspiration: C'' TEMPLATE_THUMB ''temp/thumb_1.png'',
      DrawText 389 610 ''Inspiration: C'',
      Upload ''temp/video_1.mp4'' ''Inspiration: C'' demo_desc1 demo_tags1 ''2024-05-01T11:00:00Z'',
      Authenticate, Build demo_creds,
      Insert (make_body ''Inspiration: C'' demo_desc1 demo_tags1 ''2024-05-01T11:00:00Z'')
        ''temp/video_1.mp4'',
      Print ''Uploaded video ID: abc'',
      Remove ''temp/voice_1.mp3'', Remove ''temp/slide_1.mp4'', Remove ''temp/video_1.mp4'',
      Remove ''temp/thumb_1.png'']"
  by (simp add: demo_main demo_trace_after1 after_def first_forbidden_def)

text \<open>
  C5, amended. If the upload of item \<open>k\<close> fails with status 403 (its media were made,
  the client obtained and the media object made), the item ends normally: the message
  is printed, \<^verbatim>\<open>os.remove\<close> is called on its four files, and the loop goes on with
  item \<open>k + 1\<close>, whose voice synthesis is the next stage executed.
\<close>

theorem main_loop_continues_after_403:
  assumes "item_media w start k entry s = (Inr (video_fp, title, desc, tags, publish_at), s1)"
      and "get_authenticated_service w
             (s1\<lparr>trace := trace s1 @ [Upload video_fp title desc tags publish_at]\<rparr>) = (Inr yt, s2)"
      and "ext_media_file_upload w video_fp (fs s2) = None"
      and "ext_execute w yt (make_body title desc tags publish_at) video_fp = Inl (HttpError 403)"
      and "dict_getitem entry' ''author'' = Inr a" and "dict_getitem entry' ''quote'' = Inr q"
  shows "\<exists>s3 evs.
           main_item w start k entry s = (Inr (), s3) \<and>
           trace s3 = trace s2 @
             [Insert (make_body title desc tags publish_at) video_fp, Print api_not_enabled_message] @
             map Remove [voice_path k, slide_path k, video_path k, thumb_path k] \<and>
           main_loop w start ((k, entry) # (Suc k, entry') # rest) s =
             main_loop w start ((Suc k, entry') # rest) s3 \<and>
           trace (snd (main_loop w start ((k, entry) # (Suc k, entry') # rest) s)) =
             trace s3 @ Synthesize (quote_text_of w q a) (voice_path (Suc k)) # evs"
proof -
  let ?ps = "[voice_path k, slide_path k, video_path k, thumb_path k]"
  let ?s2' = "s2\<lparr>trace := trace s2 @
                [Insert (make_body title desc tags publish_at) video_fp, Print api_not_enabled_message]\<rparr>"
  have up: "upload_video w video_fp title desc tags publish_at s1 = (Inr (), ?s2')"
    using upload_video_on_HttpError [OF assms(2,3,4)] by simp
  obtain s3 where c: "cleanup ?ps ?s2' = (Inr (), s3)"
    using cleanup_total [of ?ps ?s2'] by (cases "cleanup ?ps ?s2'") auto
  have item: "main_item w start k entry s = (Inr (), s3)"
    using assms(1) up c by (simp add: main_item_def io_bind_def)
  have tr: "trace s3 = trace s2 @
             [Insert (make_body title desc tags publish_at) video_fp, Print api_not_enabled_message] @
             map Remove ?ps"
    using cleanup_total [of ?ps ?s2'] c by simp
  have loop: "main_loop w start ((k, entry) # (Suc k, entry') # rest) s =
                main_loop w start ((Suc k, entry') # rest) s3"
    using item by simp
  from main_loop_first [OF assms(5,6), of w start "Suc k" rest s3] obtain evs where
    "trace (snd (main_loop w start ((Suc k, entry') # rest) s3)) =
       trace s3 @ Synthesize (quote_text_of w q a) (voice_path (Suc k)) # evs" by blast
  with item tr loop show ?thesis by metis
qed

text \<open>The example run: item 0 is refused, item 1 follows.\<close>

theorem main_loop_continues_after_403_witness:
  "item_media (demo_world first_forbidden) demo_start 0 demo_entry0 demo_state =
     (Inr (''temp/video_0.mp4'', ''Inspiration: A B'', demo_desc0, demo_tags0, ''2024-05-01T09:00:00Z''),
      demo_media0) \<and>
   get_authenticated_service (demo_world first_forbidden)
     (demo_media0\<lparr>trace := trace demo_media0 @
        [Upload ''temp/video_0.mp4'' ''Inspiration: A B'' demo_desc0 demo_tags0 ''2024-05-01T09:00:00Z'']\<rparr>)
     = (Inr (Client demo_creds), demo_auth0) \<and>
   ext_media_file_upload (demo_world first_forbidden) ''temp/video_0.mp4'' (fs demo_auth0) = None \<and>
   ext_execute (demo_world first_forbidden) (Client demo_creds)
     (make_body ''Inspiration: A B'' demo_desc0 demo_tags0 ''2024-05-01T09:00:00Z'') ''temp/video_0.mp4''
     = Inl (HttpError 403) \<and>
   dict_getitem demo_entry1 ''author'' = Inr (JStr ''C'') \<and>
   dict_getitem demo_entry1 ''quote'' = Inr (JStr ''Do'') \<and>
   (\<exists>s3 evs.
      main_item (demo_world first_forbidden) demo_start 0 demo_entry0 demo_state = (Inr (), s3) \<and>
      main_loop (demo_world first_forbidden) demo_start [(0, demo_entry0), (Suc 0, demo_entry1)] demo_state =
        main_loop (demo_world first_forbidden) demo_start [(Suc 0, demo_entry1)] s3 \<and>
      trace (snd (main_loop (demo_world first_forbidden) demo_start
                    [(0, demo_entry0), (Suc 0, demo_entry1)] demo_state)) =
        trace s3 @
        Synthesize (quote_text_of (demo_world first_forbidden) (JStr ''Do'') (JStr ''C''))
          (voice_path (Suc 0)) # evs)"
proof -
  let ?w = "demo_world first_forbidden"
  let ?b = "make_body ''Inspiration: A B'' demo_desc0 demo_tags0 ''2024-05-01T09:00:00Z''"
  have m: "ext_media_file_upload ?w ''temp/video_0.mp4'' (fs demo_auth0) = None"
    by (simp add: demo_sel)
  have e: "ext_execute ?w (Client demo_creds) ?b ''temp/video_0.mp4'' = Inl (HttpError 403)"
    by (simp add: demo_sel first_forbidden_def)
  have a: "dict_getitem demo_entry1 ''author'' = Inr (JStr ''C'')"
    by (simp add: dict_getitem_def demo_entry1_def)
  have q: "dict_getitem demo_entry1 ''quote'' = Inr (JStr ''Do'')"
    by (simp add: dict_getitem_def demo_entry1_def)
  from main_loop_continues_after_403 [OF demo_item_media0 demo_authenticate0 m e a q, of "[]"]
  obtain s3 evs where
    "main_item ?w demo_start 0 demo_entry0 demo_state = (Inr (), s3)"
    "main_loop ?w demo_start [(0, demo_entry0), (Suc 0, demo_entry1)] demo_state =
       main_loop ?w demo_start [(Suc 0, demo_entry1)] s3"
    "trace (snd (main_loop ?w demo_start [(0, demo_entry0), (Suc 0, demo_entry1)] demo_state)) =
       trace s3 @ Synthesize (quote_text_of ?w (JStr ''Do'') (JStr ''C'')) (voice_path (Suc 0)) # evs"
    by blast
  then have "\<exists>s3 evs.
      main_item ?w demo_start 0 demo_entry0 demo_state = (Inr (), s3) \<and>
      main_loop ?w demo_start [(0, demo_entry0), (Suc 0, demo_entry1)] demo_state =
        main_loop ?w demo_start [(Suc 0, demo_entry1)] s3 \<and>
      trace (snd (main_loop ?w demo_start [(0, demo_entry0), (Suc 0, demo_entry1)] demo_state)) =
        trace s3 @ Synthesize (quote_text_of ?w (JStr ''Do'') (JStr ''C'')) (voice_path (Suc 0)) # evs"
    by blast
  with demo_item_media0 [of first_forbidden] demo_authenticate0 [of first_forbidden] m e a q
  show ?thesis by (intro conjI)
qed

subsection \<open>Authentication in a run\<close>





end
